theory Spec2Isabelle
  imports Main "HOL-Library.Sublist"
begin

section \<open>Texts, bytes and exceptions\<close>

text \<open>
  A Python \<open>str\<close> is a sequence of Unicode code points; \<open>len\<close> and slicing count code
  points. It is modelled as a list of code-point numbers, so that \<open>length\<close> is Python's
  \<open>len\<close>. The string literals of \<open>app.py\<close> are ASCII; \<open>lit\<close> embeds them.
  Raw bytes are lists of 8-bit characters.
\<close>

type_synonym pystr = "nat list"

type_synonym bytes = "char list"

definition lit :: "string \<Rightarrow> pystr" where
  "lit s = map of_char s"

text \<open>
  The exceptions that the helper functions can meet: the parser's failure on a file that
  is no PDF, and the failures of opening and reading a text file.
\<close>

datatype exn =
    PdfReadError
  | FileNotFoundError
  | PermissionError
  | IsADirectoryError
  | UnicodeDecodeError

section \<open>Document ingestion: \<open>extract_text_from_pdf\<close>\<close>

text \<open>
  The uploaded file is a named in-memory byte stream. The PDF library is taken as a
  parameter: \<open>PdfReader\<close> maps the bytes of the stream to the list \<open>reader.pages\<close> or
  raises, and \<open>extract_text\<close> gives the text of one page, which may be empty or absent.
\<close>

record uploaded_file =
  upload_name :: pystr
  upload_bytes :: bytes

record 'page pypdf =
  PdfReader :: "bytes \<Rightarrow> exn + 'page list"
  extract_text :: "'page \<Rightarrow> pystr option"

text \<open>
  The body of the \<open>for page in reader.pages\<close> loop, with the accumulator \<open>text\<close>:
  \<open>if content: text += content\<close>. A content that is \<open>None\<close> or \<open>""\<close> is falsy.
\<close>

fun pages_loop :: "('page \<Rightarrow> pystr option) \<Rightarrow> pystr \<Rightarrow> 'page list \<Rightarrow> pystr" where
  "pages_loop ex text [] = text"
| "pages_loop ex text (page # pages) =
     (case ex page of
        None \<Rightarrow> pages_loop ex text pages
      | Some content \<Rightarrow>
          if content \<noteq> [] then pages_loop ex (text @ content) pages
          else pages_loop ex text pages)"

definition extract_text_from_pdf :: "'page pypdf \<Rightarrow> uploaded_file \<Rightarrow> exn + pystr" where
  "extract_text_from_pdf lib pdf_file =
     (case PdfReader lib (upload_bytes pdf_file) of
        Inl e \<Rightarrow> Inl e
      | Inr pages \<Rightarrow> Inr (pages_loop (extract_text lib) [] pages))"

text \<open>A page yields text when its extraction is present and not empty.\<close>

definition yields_text :: "pystr option \<Rightarrow> bool" where
  "yields_text c = (case c of None \<Rightarrow> False | Some s \<Rightarrow> s \<noteq> [])"

text \<open>
  Concrete documents: the pages are their own extraction results. Scenario A has an empty
  page followed by a page of text; the blank document has only pages without text; the
  third document has no page at all; the last one has two adjacent pages of text.
\<close>

definition pages_as_given :: "bytes \<Rightarrow> pystr option list \<Rightarrow> pystr option pypdf" where
  "pages_as_given b ps =
     \<lparr>PdfReader = (\<lambda>x. if x = b then Inr ps else Inl PdfReadError), extract_text = (\<lambda>p. p)\<rparr>"

definition tender_upload :: uploaded_file where
  "tender_upload = \<lparr>upload_name = lit ''tender.pdf'', upload_bytes = ''%PDF-1.7''\<rparr>"

definition scenario_A_pages :: "pystr option list" where
  "scenario_A_pages = [Some [], Some (lit ''Must support 99.9% uptime.'')]"

definition blank_pages :: "pystr option list" where
  "blank_pages = [None, Some []]"

definition two_text_pages :: "pystr option list" where
  "two_text_pages = [Some (lit ''ab''), Some (lit ''cd'')]"

section \<open>The business profile: \<open>load_business_profile\<close>\<close>

text \<open>
  Text-file input is a parameter: \<open>open_r\<close> is \<open>open(path, "r")\<close>, giving a file object
  or raising, and \<open>read\<close> is \<open>f.read()\<close>, giving the text of the file as text mode
  delivers it or raising (a file that does not decode).
\<close>

record 'file text_io =
  open_r :: "pystr \<Rightarrow> exn + 'file"
  read :: "'file \<Rightarrow> exn + pystr"

definition profile_path :: pystr where
  "profile_path = lit ''my_business_profile.txt''"

definition default_profile :: pystr where
  "default_profile = lit ''Standard IT services and software engineering expertise.''"

text \<open>
  The handler \<open>except FileNotFoundError\<close>: that exception gives the default text, every
  other exception leaves the function.
\<close>

definition except_FileNotFoundError :: "exn \<Rightarrow> exn + pystr" where
  "except_FileNotFoundError e =
     (if e = FileNotFoundError then Inr default_profile else Inl e)"

text \<open>The \<open>try\<close> block covers both the opening and the reading of the file.\<close>

definition load_business_profile :: "'file text_io \<Rightarrow> exn + pystr" where
  "load_business_profile io =
     (case open_r io profile_path of
        Inl e \<Rightarrow> except_FileNotFoundError e
      | Inr f \<Rightarrow>
          (case read io f of
             Inl e \<Rightarrow> except_FileNotFoundError e
           | Inr contents \<Rightarrow> Inr contents))"

text \<open>
  Concrete states of the file: missing, present with a text, present but unreadable by
  this user, present but not decodable.
\<close>

definition missing_io :: "unit text_io" where
  "missing_io = \<lparr>open_r = (\<lambda>p. Inl FileNotFoundError), read = (\<lambda>f. Inr [])\<rparr>"

definition present_io :: "unit text_io" where
  "present_io =
     \<lparr>open_r = (\<lambda>p. if p = profile_path then Inr () else Inl FileNotFoundError),
      read = (\<lambda>f. Inr (lit ''We build data platforms.''))\<rparr>"

definition denied_io :: "unit text_io" where
  "denied_io = \<lparr>open_r = (\<lambda>p. Inl PermissionError), read = (\<lambda>f. Inr [])\<rparr>"

definition undecodable_io :: "unit text_io" where
  "undecodable_io = \<lparr>open_r = (\<lambda>p. Inr ()), read = (\<lambda>f. Inl UnicodeDecodeError)\<rparr>"

section \<open>The task descriptions\<close>

text \<open>
  The three \<open>Task\<close> descriptions of \<open>app.py\<close>. Two are f-strings over the ingested
  tender text, cut with \<open>[:5000]\<close> and \<open>[:6000]\<close>, and the profile; the third is a
  plain string. A slice \<open>s[:n]\<close> with \<open>n \<ge> 0\<close> is \<open>take n s\<close>.
\<close>

definition extraction_task_description :: "pystr \<Rightarrow> pystr" where
  "extraction_task_description tender_text =
     lit ''Summarize the 5 most important technical requirements from this text: ''
     @ take 5000 tender_text"

definition task_matching_description :: "pystr \<Rightarrow> pystr \<Rightarrow> pystr" where
  "task_matching_description tender_text profile =
     lit ''Compare these tender requirements: ''
     @ take 6000 tender_text
     @ lit '' against our company profile: ''
     @ profile
     @ lit ''. Find the 3 strongest 'selling points' we have for this client.''"

definition task_final_proposal_description :: pystr where
  "task_final_proposal_description =
     lit ''Using the audit results, write a formal 4-section proposal: Executive Summary, Proposed Solution, Past Experience, and Call to Action.''"

section \<open>Stages and the sequential orchestrator\<close>

text \<open>
  Modelled from the spec: the failures of a pipeline run. \<open>app.py\<close> defines no exception
  of its own; the spec names \<open>DependencyError\<close> for a misconfigured pipeline and four
  typed failures of the remote service.
\<close>

datatype pipeline_error =
    DependencyError
  | AuthError
  | RateLimitError
  | TimeoutError
  | ProviderError

text \<open>
  Modelled from the spec: the stage descriptor
  \<open>{role, goal, backstory, promptTemplate, expectedOutputDescription,
  requiredUpstreamStageIds}\<close> with the stage's identifier. \<open>app.py\<close> passes role, goal,
  backstory, description and expected output to the library's \<open>Agent\<close> and \<open>Task\<close> and
  declares no dependency. The prompt template is the task description as a function of
  the document text and the profile text.
\<close>

record stage =
  stage_id :: pystr
  role :: pystr
  goal :: pystr
  backstory :: pystr
  promptTemplate :: "pystr \<Rightarrow> pystr \<Rightarrow> pystr"
  expectedOutputDescription :: pystr
  requiredUpstreamStageIds :: "pystr list"

text \<open>
  Modelled from the spec: the context of a run, a mapping from stage identifier to the
  output text of that stage. \<open>app.py\<close> keeps no such mapping.
\<close>

type_synonym pipeline_context = "pystr \<rightharpoonup> pystr"

text \<open>
  Modelled from the spec: the language-model client \<open>generate\<close>, its configuration fixed
  at construction, which answers a prompt with a text or with a typed failure. In
  \<open>app.py\<close> the remote calls are made inside the library.
\<close>

type_synonym client = "pystr \<Rightarrow> pipeline_error + pystr"

text \<open>
  Modelled from the spec: \<open>build_prompt\<close>, absent from \<open>app.py\<close> (the library assembles
  the prompt). It interpolates the outputs of the stage's declared dependencies, read
  from the context, after the template's wording with its excerpt of the source text.
  The spec does not fix the layout; the outputs follow the wording in declared order.
\<close>

definition build_prompt :: "pipeline_context \<Rightarrow> pystr \<Rightarrow> pystr \<Rightarrow> stage \<Rightarrow> pystr" where
  "build_prompt ctx document_text profile_text s =
     promptTemplate s document_text profile_text
     @ concat (map (\<lambda>d. case ctx d of None \<Rightarrow> [] | Some out \<Rightarrow> out)
                (requiredUpstreamStageIds s))"

text \<open>
  Modelled from the spec: the check made when the orchestrator is constructed, absent
  from \<open>app.py\<close>. Walking the sequence, every dependency of a stage must be the
  identifier of a stage that precedes it.
\<close>

fun dependencies_satisfied :: "pystr list \<Rightarrow> stage list \<Rightarrow> bool" where
  "dependencies_satisfied preceding [] = True"
| "dependencies_satisfied preceding (s # rest) =
     (list_all (\<lambda>d. d \<in> set preceding) (requiredUpstreamStageIds s)
      \<and> dependencies_satisfied (preceding @ [stage_id s]) rest)"

text \<open>
  Modelled from the spec: the orchestrator, an ordered sequence of stages. In \<open>app.py\<close>
  it is the library's \<open>Crew\<close> object.
\<close>

record orchestrator =
  orch_stages :: "stage list"

text \<open>
  Modelled from the spec: the construction of the orchestrator, which fails fast with
  \<open>DependencyError\<close>; \<open>app.py\<close> calls the library's constructor \<open>Crew(...)\<close> and checks
  nothing itself. The construction takes no client: it cannot call the service.
\<close>

definition new_orchestrator :: "stage list \<Rightarrow> pipeline_error + orchestrator" where
  "new_orchestrator ss =
     (if dependencies_satisfied [] ss then Inr \<lparr>orch_stages = ss\<rparr> else Inl DependencyError)"

text \<open>
  Modelled from the spec: the sequential run, absent from \<open>app.py\<close> (the library's
  \<open>kickoff\<close>). For each stage in order: build its prompt from the current context, call
  the client, store the result under the stage's identifier, continue; the first failure
  ends the run. The first component of the result lists the prompts sent to the remote
  service, in order, one for each remote call made.
\<close>

fun run_stages ::
  "client \<Rightarrow> pystr \<Rightarrow> pystr \<Rightarrow> pipeline_context \<Rightarrow> stage list
     \<Rightarrow> pystr list \<times> (pipeline_error + pipeline_context)" where
  "run_stages generate document_text profile_text ctx [] = ([], Inr ctx)"
| "run_stages generate document_text profile_text ctx (s # rest) =
     (let prompt = build_prompt ctx document_text profile_text s in
      case generate prompt of
        Inl e \<Rightarrow> ([prompt], Inl e)
      | Inr out \<Rightarrow>
          (case run_stages generate document_text profile_text (ctx(stage_id s \<mapsto> out)) rest of
             (calls, r) \<Rightarrow> (prompt # calls, r)))"

text \<open>
  Modelled from the spec: the artifact is the final stage's output. The spec is silent on
  an empty sequence; it yields the empty text here.
\<close>

definition artifact :: "pipeline_context \<Rightarrow> stage list \<Rightarrow> pystr" where
  "artifact ctx ss =
     (if ss = [] then []
      else case ctx (stage_id (last ss)) of None \<Rightarrow> [] | Some out \<Rightarrow> out)"

text \<open>
  Modelled from the spec: \<open>execute\<close>, construction followed by the run. The result is the
  list of remote calls made and either the error of the run or the artifact.
\<close>

definition execute ::
  "client \<Rightarrow> stage list \<Rightarrow> pystr \<Rightarrow> pystr \<Rightarrow> pystr list \<times> (pipeline_error + pystr)" where
  "execute generate ss document_text profile_text =
     (case new_orchestrator ss of
        Inl e \<Rightarrow> ([], Inl e)
      | Inr orch \<Rightarrow>
          (case run_stages generate document_text profile_text Map.empty (orch_stages orch) of
             (calls, Inl e) \<Rightarrow> (calls, Inl e)
           | (calls, Inr ctx) \<Rightarrow> (calls, Inr (artifact ctx (orch_stages orch)))))"

text \<open>
  Modelled from the spec: the audit stage as a stage descriptor, with its identifier and
  no upstream dependency. Role, goal and backstory are those of the agent \<open>auditor\<close> of
  \<open>app.py\<close>, the template and the expected output those of its task \<open>task_matching\<close>.
\<close>

definition audit_stage :: stage where
  "audit_stage =
     \<lparr>stage_id = lit ''audit'',
      role = lit ''Compliance Auditor'',
      goal = lit ''Ensure our response addresses every technical requirement found.'',
      backstory = lit ''Expert in matching corporate capabilities to project needs.'',
      promptTemplate = task_matching_description,
      expectedOutputDescription = lit ''An internal analysis of why we are the right choice.'',
      requiredUpstreamStageIds = []\<rparr>"

text \<open>
  Modelled from the spec: the synthesis stage as a stage descriptor, with its identifier
  and its declared dependency on the audit stage. Role, goal and backstory are those of
  the agent \<open>strategist\<close> of \<open>app.py\<close>, the template and the expected output those of
  its task \<open>task_final_proposal\<close>, whose description is a plain string and which
  declares no dependency there.
\<close>

definition synthesis_stage :: stage where
  "synthesis_stage =
     \<lparr>stage_id = lit ''synthesis'',
      role = lit ''Senior Proposal Writer'',
      goal = lit ''Write a persuasive, high-value proposal based on our profile and the tender.'',
      backstory = lit ''Master of technical sales and executive communication.'',
      promptTemplate = (\<lambda>document_text profile_text. task_final_proposal_description),
      expectedOutputDescription =
        lit ''A professional, markdown-formatted business proposal document.'',
      requiredUpstreamStageIds = [lit ''audit'']\<rparr>"

text \<open>
  The proposal pipeline, in the order of \<open>tasks=[task_matching, task_final_proposal]\<close>.
\<close>

definition proposal_pipeline :: "stage list" where
  "proposal_pipeline = [audit_stage, synthesis_stage]"

text \<open>
  Stub clients: one answers every prompt with the sentinel, one fails every call with a
  timeout.
\<close>

definition sentinel_client :: client where
  "sentinel_client prompt = Inr (lit ''AUDIT: price, support, SLA'')"

definition timeout_client :: client where
  "timeout_client prompt = Inl TimeoutError"

section \<open>Properties of ingestion\<close>

lemma pages_loop_acc: "pages_loop ex acc pages = acc @ pages_loop ex [] pages"
proof (induction pages arbitrary: acc)
  case Nil
  show ?case by simp
next
  case (Cons p ps)
  show ?case
  proof (cases "ex p")
    case None
    then show ?thesis using Cons.IH [of acc] by simp
  next
    case (Some c)
    then show ?thesis using Cons.IH [of acc] Cons.IH [of "acc @ c"] Cons.IH [of c]
      by simp
  qed
qed

lemma pages_loop_append:
  "pages_loop ex acc (ps @ qs) = pages_loop ex acc ps @ pages_loop ex [] qs"
proof (induction ps arbitrary: acc)
  case Nil
  show ?case using pages_loop_acc [of ex acc qs] by simp
next
  case (Cons p ps)
  then show ?case by (simp split: option.splits)
qed

lemma pages_loop_concat:
  "pages_loop ex [] pages = concat (map the (filter yields_text (map ex pages)))"
proof (induction pages)
  case Nil
  show ?case by simp
next
  case (Cons p ps)
  show ?case
  proof (cases "ex p")
    case None
    then show ?thesis using Cons.IH by (simp add: yields_text_def)
  next
    case (Some c)
    then show ?thesis using Cons.IH pages_loop_acc [of ex c ps]
      by (simp add: yields_text_def)
  qed
qed

lemma concat_text_empty_iff:
  "concat (map the (filter yields_text cs)) = [] \<longleftrightarrow> (\<forall>c \<in> set cs. \<not> yields_text c)"
  by (induction cs) (auto simp: yields_text_def split: option.splits)

text \<open>
  C3. When the document parses, ingestion returns the texts of the pages that yield text,
  concatenated in page order, every other page being skipped. The result is the empty
  string, and no exception, when no page yields text (also when there is no page), and it
  is a non-empty text when some page yields text.
\<close>

theorem ingest_concatenates_text_pages:
  "PdfReader lib (upload_bytes f) = Inr pages \<Longrightarrow>
     extract_text_from_pdf lib f
       = Inr (concat (map the (filter yields_text (map (extract_text lib) pages))))
     \<and> ((\<forall>p \<in> set pages. \<not> yields_text (extract_text lib p))
          \<longrightarrow> extract_text_from_pdf lib f = Inr [])
     \<and> ((\<exists>p \<in> set pages. yields_text (extract_text lib p))
          \<longrightarrow> (\<exists>t. extract_text_from_pdf lib f = Inr t \<and> t \<noteq> []))"
proof -
  assume parsed: "PdfReader lib (upload_bytes f) = Inr pages"
  let ?cs = "map (extract_text lib) pages"
  have res: "extract_text_from_pdf lib f = Inr (concat (map the (filter yields_text ?cs)))"
    using parsed pages_loop_concat [of "extract_text lib" pages]
    by (simp add: extract_text_from_pdf_def)
  have none: "(\<forall>p \<in> set pages. \<not> yields_text (extract_text lib p))
      \<longrightarrow> concat (map the (filter yields_text ?cs)) = []"
    using concat_text_empty_iff [of ?cs] by simp
  have some: "(\<exists>p \<in> set pages. yields_text (extract_text lib p))
      \<longrightarrow> concat (map the (filter yields_text ?cs)) \<noteq> []"
    using concat_text_empty_iff [of ?cs] by simp
  show ?thesis using res none some by simp
qed

theorem ingest_concatenates_text_pages_witness:
  "extract_text_from_pdf (pages_as_given ''%PDF-1.7'' scenario_A_pages) tender_upload
     = Inr (lit ''Must support 99.9% uptime.'')
   \<and> extract_text_from_pdf (pages_as_given ''%PDF-1.7'' blank_pages) tender_upload = Inr []
   \<and> extract_text_from_pdf (pages_as_given ''%PDF-1.7'' []) tender_upload = Inr []"
proof -
  have a: "PdfReader (pages_as_given ''%PDF-1.7'' scenario_A_pages) (upload_bytes tender_upload)
      = Inr scenario_A_pages"
    by (simp add: pages_as_given_def tender_upload_def)
  have b: "PdfReader (pages_as_given ''%PDF-1.7'' blank_pages) (upload_bytes tender_upload)
      = Inr blank_pages"
    by (simp add: pages_as_given_def tender_upload_def)
  have c: "PdfReader (pages_as_given ''%PDF-1.7'' []) (upload_bytes tender_upload) = Inr []"
    by (simp add: pages_as_given_def tender_upload_def)
  have "extract_text_from_pdf (pages_as_given ''%PDF-1.7'' scenario_A_pages) tender_upload
      = Inr (lit ''Must support 99.9% uptime.'')"
    using ingest_concatenates_text_pages [OF a]
    by (simp add: pages_as_given_def scenario_A_pages_def yields_text_def lit_def)
  moreover have "extract_text_from_pdf (pages_as_given ''%PDF-1.7'' blank_pages) tender_upload
      = Inr []"
    using ingest_concatenates_text_pages [OF b]
    by (simp add: pages_as_given_def blank_pages_def yields_text_def)
  moreover have "extract_text_from_pdf (pages_as_given ''%PDF-1.7'' []) tender_upload = Inr []"
    using ingest_concatenates_text_pages [OF c] by simp
  ultimately show ?thesis by simp
qed

text \<open>
  C9. Two adjacent pages that both yield text are joined with nothing between them: the
  output is the text of the pages before, then the first text immediately followed by
  the second, then the text of the pages after.
\<close>

theorem ingest_no_separator:
  "PdfReader lib (upload_bytes f) = Inr (before @ [p, q] @ after) \<Longrightarrow>
   extract_text lib p = Some a \<Longrightarrow> a \<noteq> [] \<Longrightarrow>
   extract_text lib q = Some b \<Longrightarrow> b \<noteq> [] \<Longrightarrow>
     extract_text_from_pdf lib f
       = Inr (pages_loop (extract_text lib) [] before @ a @ b
              @ pages_loop (extract_text lib) [] after)"
proof -
  assume parsed: "PdfReader lib (upload_bytes f) = Inr (before @ [p, q] @ after)"
    and p: "extract_text lib p = Some a" "a \<noteq> []"
    and q: "extract_text lib q = Some b" "b \<noteq> []"
  let ?ex = "extract_text lib"
  have "pages_loop ?ex [] ([p, q] @ after) = pages_loop ?ex (a @ b) after"
    using p q by simp
  also have "\<dots> = a @ b @ pages_loop ?ex [] after"
    using pages_loop_acc [of ?ex "a @ b" after] by simp
  finally have mid: "pages_loop ?ex [] ([p, q] @ after) = a @ b @ pages_loop ?ex [] after" .
  have "pages_loop ?ex [] (before @ [p, q] @ after)
      = pages_loop ?ex [] before @ pages_loop ?ex [] ([p, q] @ after)"
    by (rule pages_loop_append)
  then show ?thesis using parsed mid by (simp add: extract_text_from_pdf_def)
qed

theorem ingest_no_separator_witness:
  "extract_text_from_pdf (pages_as_given ''%PDF-1.7'' two_text_pages) tender_upload
     = Inr (lit ''abcd'')"
proof -
  have parsed: "PdfReader (pages_as_given ''%PDF-1.7'' two_text_pages) (upload_bytes tender_upload)
      = Inr ([] @ [Some (lit ''ab''), Some (lit ''cd'')] @ [])"
    by (simp add: pages_as_given_def tender_upload_def two_text_pages_def)
  have p: "extract_text (pages_as_given ''%PDF-1.7'' two_text_pages) (Some (lit ''ab''))
      = Some (lit ''ab'')"
    by (simp add: pages_as_given_def)
  have q: "extract_text (pages_as_given ''%PDF-1.7'' two_text_pages) (Some (lit ''cd''))
      = Some (lit ''cd'')"
    by (simp add: pages_as_given_def)
  have ne: "lit ''ab'' \<noteq> []" "lit ''cd'' \<noteq> []"
    by (simp_all add: lit_def)
  show ?thesis
    using ingest_no_separator [OF parsed p ne(1) q ne(2)] by (simp add: lit_def)
qed

section \<open>Properties of the profile load\<close>

text \<open>
  C4. When the profile file is absent the load returns exactly the default statement
  "Standard IT services and software engineering expertise."; when the file opens and
  reads, the load returns the text read, unchanged. The path is the fixed
  \<open>my_business_profile.txt\<close>.
\<close>

theorem load_profile_default_or_contents:
  "(open_r io profile_path = Inl FileNotFoundError
      \<longrightarrow> load_business_profile io
            = Inr (lit ''Standard IT services and software engineering expertise.''))
   \<and> (\<forall>f contents. open_r io profile_path = Inr f \<and> read io f = Inr contents
      \<longrightarrow> load_business_profile io = Inr contents)"
  by (simp add: load_business_profile_def except_FileNotFoundError_def default_profile_def)

theorem load_profile_default_or_contents_witness:
  "open_r missing_io profile_path = Inl FileNotFoundError
   \<and> load_business_profile missing_io
       = Inr (lit ''Standard IT services and software engineering expertise.'')
   \<and> open_r present_io profile_path = Inr ()
   \<and> read present_io () = Inr (lit ''We build data platforms.'')
   \<and> load_business_profile present_io = Inr (lit ''We build data platforms.'')"
proof -
  have m: "open_r missing_io profile_path = Inl FileNotFoundError"
    by (simp add: missing_io_def)
  have p: "open_r present_io profile_path = Inr ()
      \<and> read present_io () = Inr (lit ''We build data platforms.'')"
    by (simp add: present_io_def)
  show ?thesis
    using m p load_profile_default_or_contents [of missing_io]
      load_profile_default_or_contents [of present_io]
    by simp
qed

text \<open>
  C5, as stated, fails: the handler names \<open>FileNotFoundError\<close> only. When the file exists
  but may not be read by this user, opening raises \<open>PermissionError\<close> and the load raises
  it too instead of returning the default statement.
\<close>

theorem load_profile_never_raises_counterexample:
  "open_r denied_io profile_path = Inl PermissionError
   \<and> load_business_profile denied_io = Inl PermissionError
   \<and> load_business_profile denied_io \<noteq> Inr default_profile"
  by (simp add: denied_io_def load_business_profile_def except_FileNotFoundError_def)

text \<open>
  C5, amended. The load degrades to the default statement for \<open>FileNotFoundError\<close> and for
  nothing else: any other exception raised by opening the file or by reading it leaves
  \<open>load_business_profile\<close> unchanged.
\<close>

theorem load_profile_other_errors_propagate:
  "e \<noteq> FileNotFoundError \<Longrightarrow>
     (open_r io profile_path = Inl e \<longrightarrow> load_business_profile io = Inl e)
     \<and> (\<forall>f. open_r io profile_path = Inr f \<and> read io f = Inl e
          \<longrightarrow> load_business_profile io = Inl e)"
  by (simp add: load_business_profile_def except_FileNotFoundError_def)

theorem load_profile_other_errors_propagate_witness:
  "PermissionError \<noteq> FileNotFoundError
   \<and> open_r denied_io profile_path = Inl PermissionError
   \<and> load_business_profile denied_io = Inl PermissionError
   \<and> UnicodeDecodeError \<noteq> FileNotFoundError
   \<and> open_r undecodable_io profile_path = Inr ()
   \<and> read undecodable_io () = Inl UnicodeDecodeError
   \<and> load_business_profile undecodable_io = Inl UnicodeDecodeError"
proof -
  have d: "PermissionError \<noteq> FileNotFoundError" by simp
  have u: "UnicodeDecodeError \<noteq> FileNotFoundError" by simp
  have od: "open_r denied_io profile_path = Inl PermissionError"
    by (simp add: denied_io_def)
  have ou: "open_r undecodable_io profile_path = Inr ()
      \<and> read undecodable_io () = Inl UnicodeDecodeError"
    by (simp add: undecodable_io_def)
  show ?thesis
    using od ou load_profile_other_errors_propagate [OF d, of denied_io]
      load_profile_other_errors_propagate [OF u, of undecodable_io]
    by simp
qed

section \<open>Properties of the task descriptions\<close>

text \<open>
  C6. The part of the tender text that enters a description is a prefix of the text of
  at most 5000 characters in the extraction task and at most 6000 characters in the
  audit task; the rest of each description is fixed wording (and the profile). So the
  extraction description is at most 5070 characters long, and the audit description at
  most 6129 characters beyond the profile.
\<close>

theorem excerpt_within_limit:
  "(\<exists>excerpt.
      extraction_task_description tender_text
        = lit ''Summarize the 5 most important technical requirements from this text: ''
          @ excerpt
      \<and> prefix excerpt tender_text \<and> length excerpt \<le> 5000
      \<and> length excerpt = min 5000 (length tender_text))
   \<and> (\<exists>excerpt.
      task_matching_description tender_text profile
        = lit ''Compare these tender requirements: '' @ excerpt
          @ lit '' against our company profile: '' @ profile
          @ lit ''. Find the 3 strongest 'selling points' we have for this client.''
      \<and> prefix excerpt tender_text \<and> length excerpt \<le> 6000
      \<and> length excerpt = min 6000 (length tender_text))
   \<and> length (extraction_task_description tender_text) \<le> 5070
   \<and> length (task_matching_description tender_text profile) \<le> 6129 + length profile"
proof -
  have a: "\<exists>excerpt.
      extraction_task_description tender_text
        = lit ''Summarize the 5 most important technical requirements from this text: ''
          @ excerpt
      \<and> prefix excerpt tender_text \<and> length excerpt \<le> 5000
      \<and> length excerpt = min 5000 (length tender_text)"
    unfolding extraction_task_description_def
    by (rule exI [of _ "take 5000 tender_text"]) (simp add: take_is_prefix min.commute)
  have b: "\<exists>excerpt.
      task_matching_description tender_text profile
        = lit ''Compare these tender requirements: '' @ excerpt
          @ lit '' against our company profile: '' @ profile
          @ lit ''. Find the 3 strongest 'selling points' we have for this client.''
      \<and> prefix excerpt tender_text \<and> length excerpt \<le> 6000
      \<and> length excerpt = min 6000 (length tender_text)"
    unfolding task_matching_description_def
    by (rule exI [of _ "take 6000 tender_text"]) (simp add: take_is_prefix min.commute)
  have c: "length (extraction_task_description tender_text) \<le> 5070"
    by (simp add: extraction_task_description_def lit_def)
  have d: "length (task_matching_description tender_text profile) \<le> 6129 + length profile"
    by (simp add: task_matching_description_def lit_def)
  show ?thesis using a b c d by simp
qed

text \<open>
  C10. The audit task's description contains the whole profile text, whatever its length:
  no slice is applied to the profile, only to the tender text.
\<close>

theorem profile_embedded_in_full:
  "sublist profile (task_matching_description tender_text profile)
   \<and> length (task_matching_description tender_text profile)
       = 129 + min 6000 (length tender_text) + length profile"
proof -
  have "task_matching_description tender_text profile
      = (lit ''Compare these tender requirements: '' @ take 6000 tender_text
         @ lit '' against our company profile: '')
        @ profile
        @ lit ''. Find the 3 strongest 'selling points' we have for this client.''"
    by (simp add: task_matching_description_def)
  then have sub: "sublist profile (task_matching_description tender_text profile)"
    by (simp only: sublist_appendI)
  have len: "length (task_matching_description tender_text profile)
      = 129 + min 6000 (length tender_text) + length profile"
    by (simp add: task_matching_description_def lit_def min.commute)
  show ?thesis using sub len by simp
qed

section \<open>Properties of the orchestrator\<close>

lemma dependencies_satisfied_iff:
  "dependencies_satisfied preceding ss \<longleftrightarrow>
     (\<forall>i < length ss. \<forall>d \<in> set (requiredUpstreamStageIds (ss ! i)).
        d \<in> set preceding \<union> stage_id ` set (take i ss))"
proof (induction ss arbitrary: preceding)
  case Nil
  show ?case by simp
next
  case (Cons s rest)
  have "(\<forall>i < length (s # rest). \<forall>d \<in> set (requiredUpstreamStageIds ((s # rest) ! i)).
           d \<in> set preceding \<union> stage_id ` set (take i (s # rest)))
      \<longleftrightarrow> (\<forall>d \<in> set (requiredUpstreamStageIds s). d \<in> set preceding)
          \<and> (\<forall>i < length rest. \<forall>d \<in> set (requiredUpstreamStageIds (rest ! i)).
               d \<in> set (preceding @ [stage_id s]) \<union> stage_id ` set (take i rest))"
    (is "?L \<longleftrightarrow> ?A \<and> ?B")
  proof
    assume l: ?L
    have a: ?A using l [rule_format, of 0] by simp
    have b: ?B
    proof (intro allI impI ballI)
      fix i d
      assume "i < length rest" "d \<in> set (requiredUpstreamStageIds (rest ! i))"
      then show "d \<in> set (preceding @ [stage_id s]) \<union> stage_id ` set (take i rest)"
        using l [rule_format, of "Suc i" d] by auto
    qed
    show "?A \<and> ?B" using a b by simp
  next
    assume ab: "?A \<and> ?B"
    show ?L
    proof (intro allI impI ballI)
      fix i d
      assume i: "i < length (s # rest)"
        and d: "d \<in> set (requiredUpstreamStageIds ((s # rest) ! i))"
      show "d \<in> set preceding \<union> stage_id ` set (take i (s # rest))"
      proof (cases i)
        case 0
        then show ?thesis using ab d by simp
      next
        case (Suc j)
        then have "d \<in> set (preceding @ [stage_id s]) \<union> stage_id ` set (take j rest)"
          using ab i d by simp
        then show ?thesis using Suc by auto
      qed
    qed
  qed
  then show ?case using Cons.IH [of "preceding @ [stage_id s]"]
    by (simp add: list_all_iff)
qed

lemma run_stages_append:
  "run_stages g d p ctx (xs @ ys) =
     (case run_stages g d p ctx xs of
        (calls, Inl e) \<Rightarrow> (calls, Inl e)
      | (calls, Inr ctx') \<Rightarrow>
          (case run_stages g d p ctx' ys of (calls', r) \<Rightarrow> (calls @ calls', r)))"
proof (induction xs arbitrary: ctx)
  case Nil
  show ?case by (simp split: prod.splits)
next
  case (Cons s rest)
  show ?case
  proof (cases "g (build_prompt ctx d p s)")
    case (Inl e)
    then show ?thesis by simp
  next
    case (Inr out)
    define ctx2 where "ctx2 = ctx(stage_id s \<mapsto> out)"
    obtain cs r where rest: "run_stages g d p ctx2 rest = (cs, r)"
      by (cases "run_stages g d p ctx2 rest")
    have head: "run_stages g d p ctx (s # rest) = (build_prompt ctx d p s # cs, r)"
      using Inr rest unfolding ctx2_def by simp
    have whole: "run_stages g d p ctx ((s # rest) @ ys) =
        (case run_stages g d p ctx2 (rest @ ys) of
           (calls, r') \<Rightarrow> (build_prompt ctx d p s # calls, r'))"
      using Inr unfolding ctx2_def by simp
    show ?thesis
      unfolding whole head Cons.IH [of ctx2] rest
      by (simp split: prod.splits sum.splits)
  qed
qed

lemma run_stages_success_calls:
  "run_stages g d p ctx ss = (calls, Inr ctx') \<Longrightarrow> length calls = length ss"
proof (induction ss arbitrary: ctx calls)
  case Nil
  then show ?case by simp
next
  case (Cons s rest)
  show ?case
  proof (cases "g (build_prompt ctx d p s)")
    case (Inl e)
    then show ?thesis using Cons.prems by simp
  next
    case (Inr out)
    then obtain cs where cs: "run_stages g d p (ctx(stage_id s \<mapsto> out)) rest = (cs, Inr ctx')"
      and calls: "calls = build_prompt ctx d p s # cs"
      using Cons.prems by (auto split: prod.splits)
    show ?thesis using Cons.IH [OF cs] calls by simp
  qed
qed

text \<open>
  C2. Construction succeeds exactly when every dependency of every stage is the identifier
  of a stage before it in the sequence, and raises \<open>DependencyError\<close> otherwise; in that
  case \<open>execute\<close> ends with this error and the list of remote calls is empty.
\<close>

theorem construction_validates_dependencies:
  "new_orchestrator ss =
     (if \<forall>i < length ss. \<forall>d \<in> set (requiredUpstreamStageIds (ss ! i)).
           d \<in> stage_id ` set (take i ss)
      then Inr \<lparr>orch_stages = ss\<rparr> else Inl DependencyError)
   \<and> ((\<exists>i < length ss. \<exists>d \<in> set (requiredUpstreamStageIds (ss ! i)).
          d \<notin> stage_id ` set (take i ss))
        \<longrightarrow> execute generate ss document_text profile_text = ([], Inl DependencyError))"
proof -
  have iff: "dependencies_satisfied [] ss \<longleftrightarrow>
      (\<forall>i < length ss. \<forall>d \<in> set (requiredUpstreamStageIds (ss ! i)).
         d \<in> stage_id ` set (take i ss))"
    using dependencies_satisfied_iff [of "[]" ss] by simp
  have ctor: "new_orchestrator ss =
      (if \<forall>i < length ss. \<forall>d \<in> set (requiredUpstreamStageIds (ss ! i)).
            d \<in> stage_id ` set (take i ss)
       then Inr \<lparr>orch_stages = ss\<rparr> else Inl DependencyError)"
    unfolding new_orchestrator_def iff by (rule refl)
  have run: "(\<exists>i < length ss. \<exists>d \<in> set (requiredUpstreamStageIds (ss ! i)).
          d \<notin> stage_id ` set (take i ss))
        \<longrightarrow> execute generate ss document_text profile_text = ([], Inl DependencyError)"
  proof
    assume "\<exists>i < length ss. \<exists>d \<in> set (requiredUpstreamStageIds (ss ! i)).
          d \<notin> stage_id ` set (take i ss)"
    then have "\<not> dependencies_satisfied [] ss" unfolding iff by blast
    then show "execute generate ss document_text profile_text = ([], Inl DependencyError)"
      by (simp add: execute_def new_orchestrator_def)
  qed
  show ?thesis using ctor run by (rule conjI)
qed

theorem construction_validates_dependencies_witness:
  "new_orchestrator [synthesis_stage, audit_stage] = Inl DependencyError
   \<and> execute sentinel_client [synthesis_stage, audit_stage]
         (lit ''Must support 99.9% uptime.'') default_profile
       = ([], Inl DependencyError)
   \<and> new_orchestrator proposal_pipeline = Inr \<lparr>orch_stages = proposal_pipeline\<rparr>"
proof -
  let ?bad = "[synthesis_stage, audit_stage]"
  have "lit ''audit'' \<in> set (requiredUpstreamStageIds (?bad ! 0))
      \<and> lit ''audit'' \<notin> stage_id ` set (take 0 ?bad)"
    by (simp add: synthesis_stage_def)
  then have unmet: "\<exists>i < length ?bad. \<exists>d \<in> set (requiredUpstreamStageIds (?bad ! i)).
      d \<notin> stage_id ` set (take i ?bad)"
    by (intro exI [of _ 0] conjI bexI [of _ "lit ''audit''"]) simp_all
  have met: "\<forall>i < length proposal_pipeline.
      \<forall>d \<in> set (requiredUpstreamStageIds (proposal_pipeline ! i)).
        d \<in> stage_id ` set (take i proposal_pipeline)"
  proof (intro allI impI)
    fix i
    assume "i < length proposal_pipeline"
    then have "i = 0 \<or> i = 1" by (auto simp: proposal_pipeline_def)
    then show "\<forall>d \<in> set (requiredUpstreamStageIds (proposal_pipeline ! i)).
        d \<in> stage_id ` set (take i proposal_pipeline)"
      by (auto simp: proposal_pipeline_def audit_stage_def synthesis_stage_def)
  qed
  show ?thesis
    using unmet met
      construction_validates_dependencies [where ss = ?bad and generate = sentinel_client
        and document_text = "lit ''Must support 99.9% uptime.''"
        and profile_text = default_profile]
      construction_validates_dependencies [where ss = proposal_pipeline]
    by simp
qed

text \<open>
  C7. When every stage before \<open>s\<close> has succeeded and the remote call of \<open>s\<close> fails with
  \<open>e\<close>, the run ends there: the remote calls made are those of the stages before \<open>s\<close>,
  one each, followed by the call of \<open>s\<close>; no stage after \<open>s\<close> is called; and the result is
  the error \<open>e\<close>, not an artifact.
\<close>

theorem first_failure_aborts_run:
  "dependencies_satisfied [] (before @ s # after) \<Longrightarrow>
   run_stages generate document_text profile_text Map.empty before = (calls, Inr ctx) \<Longrightarrow>
   generate (build_prompt ctx document_text profile_text s) = Inl e \<Longrightarrow>
     execute generate (before @ s # after) document_text profile_text
       = (calls @ [build_prompt ctx document_text profile_text s], Inl e)
     \<and> length calls = length before"
proof -
  assume valid: "dependencies_satisfied [] (before @ s # after)"
    and ok: "run_stages generate document_text profile_text Map.empty before = (calls, Inr ctx)"
    and fails: "generate (build_prompt ctx document_text profile_text s) = Inl e"
  have at_s: "run_stages generate document_text profile_text ctx (s # after)
      = ([build_prompt ctx document_text profile_text s], Inl e)"
    using fails by simp
  have "run_stages generate document_text profile_text Map.empty (before @ s # after)
      = (calls @ [build_prompt ctx document_text profile_text s], Inl e)"
    using at_s by (simp add: run_stages_append ok del: run_stages.simps)
  then have run: "execute generate (before @ s # after) document_text profile_text
      = (calls @ [build_prompt ctx document_text profile_text s], Inl e)"
    using valid by (simp add: execute_def new_orchestrator_def)
  have "length calls = length before"
    using ok by (rule run_stages_success_calls)
  then show ?thesis using run by simp
qed

theorem first_failure_aborts_run_witness:
  "execute timeout_client proposal_pipeline (lit ''Must support 99.9% uptime.'') default_profile
     = ([task_matching_description (lit ''Must support 99.9% uptime.'') default_profile],
        Inl TimeoutError)"
proof -
  let ?doc = "lit ''Must support 99.9% uptime.''"
  have valid: "dependencies_satisfied [] ([] @ audit_stage # [synthesis_stage])"
    by (simp add: audit_stage_def synthesis_stage_def)
  have ok: "run_stages timeout_client ?doc default_profile Map.empty [] = ([], Inr Map.empty)"
    by simp
  have fails: "timeout_client (build_prompt Map.empty ?doc default_profile audit_stage)
      = Inl TimeoutError"
    by (simp add: timeout_client_def)
  have prompt: "build_prompt Map.empty ?doc default_profile audit_stage
      = task_matching_description ?doc default_profile"
    by (simp add: build_prompt_def audit_stage_def)
  show ?thesis
    using first_failure_aborts_run [OF valid ok fails] prompt
    by (simp add: proposal_pipeline_def)
qed

text \<open>
  C1. In the proposal pipeline, whatever text the client returns for the audit stage, the
  run makes two remote calls, and the second prompt, the one of the synthesis stage,
  contains that text as a contiguous substring.
\<close>

theorem synthesis_prompt_contains_audit_output:
  "generate (task_matching_description document_text profile_text) = Inr audit_output \<Longrightarrow>
     (\<exists>synthesis_prompt.
        fst (execute generate proposal_pipeline document_text profile_text)
          = [task_matching_description document_text profile_text, synthesis_prompt]
        \<and> synthesis_prompt
            = build_prompt [lit ''audit'' \<mapsto> audit_output] document_text profile_text
                synthesis_stage
        \<and> sublist audit_output synthesis_prompt)"
proof -
  assume audit: "generate (task_matching_description document_text profile_text)
      = Inr audit_output"
  let ?ctx = "[lit ''audit'' \<mapsto> audit_output]"
  let ?sp = "build_prompt ?ctx document_text profile_text synthesis_stage"
  have valid: "dependencies_satisfied [] proposal_pipeline"
    by (simp add: proposal_pipeline_def audit_stage_def synthesis_stage_def)
  have p1: "build_prompt Map.empty document_text profile_text audit_stage
      = task_matching_description document_text profile_text"
    by (simp add: build_prompt_def audit_stage_def)
  have id1: "stage_id audit_stage = lit ''audit''"
    by (simp add: audit_stage_def)
  have sp: "?sp = task_final_proposal_description @ audit_output"
    by (simp add: build_prompt_def synthesis_stage_def)
  have sub: "sublist audit_output ?sp"
    unfolding sp by (rule sublist_append_leftI)
  have synth: "\<exists>calls r. run_stages generate document_text profile_text ?ctx [synthesis_stage]
      = (?sp # calls, r) \<and> calls = []"
    by (cases "generate ?sp") simp_all
  then obtain r where r: "run_stages generate document_text profile_text ?ctx [synthesis_stage]
      = ([?sp], r)"
    by blast
  have "run_stages generate document_text profile_text Map.empty proposal_pipeline
      = ([task_matching_description document_text profile_text, ?sp], r)"
    unfolding proposal_pipeline_def using audit r by (simp add: p1 id1)
  then have "fst (execute generate proposal_pipeline document_text profile_text)
      = [task_matching_description document_text profile_text, ?sp]"
    using valid by (simp add: execute_def new_orchestrator_def split: sum.splits)
  then show ?thesis using sub by blast
qed

theorem synthesis_prompt_contains_audit_output_witness:
  "sentinel_client (task_matching_description (lit ''Must support 99.9% uptime.'') default_profile)
     = Inr (lit ''AUDIT: price, support, SLA'')
   \<and> sublist (lit ''AUDIT: price, support, SLA'')
       (fst (execute sentinel_client proposal_pipeline
               (lit ''Must support 99.9% uptime.'') default_profile) ! 1)"
proof -
  have audit: "sentinel_client
      (task_matching_description (lit ''Must support 99.9% uptime.'') default_profile)
      = Inr (lit ''AUDIT: price, support, SLA'')"
    by (simp add: sentinel_client_def)
  show ?thesis
    using audit
      synthesis_prompt_contains_audit_output [where generate = sentinel_client
        and document_text = "lit ''Must support 99.9% uptime.''"
        and profile_text = default_profile
        and audit_output = "lit ''AUDIT: price, support, SLA''"]
    by auto
qed

end
